theory Spec2Isabelle
  imports Main "HOL-Library.Word"
begin

unbundle bit_operations_syntax

section \<open>The array header (array-data.h)\<close>

text \<open>
  \<open>ArrayKind\<close> is declared as a plain enumeration over \<open>uint8_t\<close> and is used as raw
  bits: it is compared, used as a table index and combined with bit operations. The
  enumerators are therefore bytes, numbered in declaration order from 0.
\<close>

type_synonym ArrayKind = "8 word"

definition kMixedKind :: ArrayKind where "kMixedKind = 0"
definition kBespokeDArrayKind :: ArrayKind where "kBespokeDArrayKind = 1"
definition kPackedKind :: ArrayKind where "kPackedKind = 2"
definition kBespokeVArrayKind :: ArrayKind where "kBespokeVArrayKind = 3"
definition kDictKind :: ArrayKind where "kDictKind = 4"
definition kBespokeDictKind :: ArrayKind where "kBespokeDictKind = 5"
definition kVecKind :: ArrayKind where "kVecKind = 6"
definition kBespokeVecKind :: ArrayKind where "kBespokeVecKind = 7"
definition kKeysetKind :: ArrayKind where "kKeysetKind = 8"
definition kBespokeKeysetKind :: ArrayKind where "kBespokeKeysetKind = 9"
definition kNumKinds :: ArrayKind where "kNumKinds = 10"

text \<open>The ten enumerators declared before \<open>kNumKinds\<close>, in declaration order.\<close>

definition declared_kinds :: "ArrayKind list" where
  "declared_kinds =
     [kMixedKind, kBespokeDArrayKind, kPackedKind, kBespokeVArrayKind, kDictKind,
      kBespokeDictKind, kVecKind, kBespokeVecKind, kKeysetKind, kBespokeKeysetKind]"

text \<open>The enumerators named as bespoke kinds, and the remaining (vanilla) ones.\<close>

definition bespoke_kinds :: "ArrayKind list" where
  "bespoke_kinds =
     [kBespokeDArrayKind, kBespokeVArrayKind, kBespokeDictKind, kBespokeVecKind,
      kBespokeKeysetKind]"

definition vanilla_kinds :: "ArrayKind list" where
  "vanilla_kinds = [kMixedKind, kPackedKind, kDictKind, kVecKind, kKeysetKind]"

text \<open>This bit is set for bespoke ArrayKinds, and not for vanilla kinds.\<close>

definition kBespokeKindMask :: "8 word" where "kBespokeKindMask = 0x01"

text \<open>
  The flag constants are \<open>static auto constexpr\<close> initialised from integer literals, so
  their type is \<open>int\<close>. An operand of type \<open>uint8_t\<close> or \<open>uint16_t\<close> is promoted to
  \<open>int\<close> before \<open>&\<close>, \<open>|\<close>, \<open>~\<close> and the comparisons; the promoted values are
  non-negative and below \<open>2 ^ 16\<close>, so the operations on \<open>int\<close> are exact and are
  written on HOL's \<open>int\<close> through \<open>uint\<close>.
\<close>

definition kHasApcTv :: int where "kHasApcTv = 1"
definition kLegacyArray :: int where "kLegacyArray = 2"
definition kHasStrKeyTable :: int where "kHasStrKeyTable = 4"
definition kSampledArray :: int where "kSampledArray = 8"

definition kDefaultVanillaArrayExtra :: "32 word" where
  "kDefaultVanillaArrayExtra = word_of_int (- 1)"

text \<open>
  The header fields. \<open>m_size\<close> and \<open>m_extra\<close> are declared in \<open>ArrayData\<close>; \<open>m_count\<close>,
  \<open>m_kind\<close> and \<open>m_aux16\<close> are inherited from the counted-object header.
\<close>

record ArrayData =
  m_count :: "32 word"
  m_kind :: "8 word"
  m_aux16 :: "16 word"
  m_size :: "32 word"
  m_extra :: "32 word"

text \<open>
  Modelled from the spec: \<open>isArrayKind\<close> (header-kind.h is not among the sources). The
  kind tag "must be one of the declared enumeration values", and the enumeration's own
  comment requires the values to be contiguous from 0 to \<open>kNumKinds - 1\<close>.
\<close>

definition isArrayKind :: "8 word \<Rightarrow> bool" where
  "isArrayKind k \<longleftrightarrow> k < kNumKinds"

definition kindIsValid :: "ArrayData \<Rightarrow> bool" where
  "kindIsValid ad \<longleftrightarrow> isArrayKind (m_kind ad)"

text \<open>
  \<open>kind()\<close> asserts \<open>kindIsValid()\<close>. A failed assertion is the result \<open>None\<close>, here and
  in every function that calls \<open>kind()\<close>.
\<close>

definition kind :: "ArrayData \<Rightarrow> ArrayKind option" where
  "kind ad = (if kindIsValid ad then Some (m_kind ad) else None)"

definition size_ad :: "ArrayData \<Rightarrow> nat" where
  "size_ad ad = unat (m_size ad)"

definition empty_ad :: "ArrayData \<Rightarrow> bool" where
  "empty_ad ad \<longleftrightarrow> size_ad ad = 0"

definition isVanilla :: "ArrayData \<Rightarrow> bool option" where
  "isVanilla ad =
     (case kind ad of None \<Rightarrow> None
      | Some k \<Rightarrow> Some (\<not> (uint k AND uint kBespokeKindMask \<noteq> 0)))"

definition bothVanilla :: "ArrayData \<Rightarrow> ArrayData \<Rightarrow> bool option" where
  "bothVanilla ad1 ad2 =
     (case kind ad1 of None \<Rightarrow> None
      | Some k1 \<Rightarrow>
          (case kind ad2 of None \<Rightarrow> None
           | Some k2 \<Rightarrow> Some (\<not> ((uint k1 OR uint k2) AND uint kBespokeKindMask \<noteq> 0))))"

definition isVArray :: "ArrayData \<Rightarrow> bool option" where
  "isVArray ad =
     (case kind ad of None \<Rightarrow> None
      | Some k \<Rightarrow> Some (uint k AND NOT (uint kBespokeKindMask) = uint kPackedKind))"

definition isDArray :: "ArrayData \<Rightarrow> bool option" where
  "isDArray ad =
     (case kind ad of None \<Rightarrow> None
      | Some k \<Rightarrow> Some (uint k \<le> uint kBespokeDArrayKind))"

definition isDVArray :: "ArrayData \<Rightarrow> bool option" where
  "isDVArray ad =
     (case kind ad of None \<Rightarrow> None
      | Some k \<Rightarrow> Some (uint k \<le> uint kBespokeVArrayKind))"

definition isNotDVArray :: "ArrayData \<Rightarrow> bool option" where
  "isNotDVArray ad = map_option Not (isDVArray ad)"

definition hasApcTv :: "ArrayData \<Rightarrow> bool" where
  "hasApcTv ad \<longleftrightarrow> uint (m_aux16 ad) AND kHasApcTv \<noteq> 0"

definition isLegacyArray :: "ArrayData \<Rightarrow> bool" where
  "isLegacyArray ad \<longleftrightarrow> uint (m_aux16 ad) AND kLegacyArray \<noteq> 0"

definition hasStrKeyTable :: "ArrayData \<Rightarrow> bool" where
  "hasStrKeyTable ad \<longleftrightarrow> uint (m_aux16 ad) AND kHasStrKeyTable \<noteq> 0"

definition isSampledArray :: "ArrayData \<Rightarrow> bool" where
  "isSampledArray ad \<longleftrightarrow> uint (m_aux16 ad) AND kSampledArray \<noteq> 0"

text \<open>
  Modelled from the spec: \<open>safe_cast\<close> (declared outside the sources). It is the narrowing
  conversion that fails, instead of truncating, when the value does not fit the target
  type; failure is \<open>None\<close>.
\<close>

definition safe_cast_uint8 :: "int \<Rightarrow> 8 word option" where
  "safe_cast_uint8 v = (if 0 \<le> v \<and> v \<le> 255 then Some (word_of_int v) else None)"

definition auxBits :: "ArrayData \<Rightarrow> 8 word option" where
  "auxBits ad = safe_cast_uint8 (uint (m_aux16 ad) AND (kLegacyArray OR kSampledArray))"

text \<open>
  A \<open>StringData\<close> pointer is null or the address of an object; the object itself plays
  no part in \<open>IsValidKey\<close>. The function returns the pointer converted to \<open>bool\<close>.
\<close>

datatype 'a pointer = nullptr | Addr 'a

fun pointer_to_bool :: "'a pointer \<Rightarrow> bool" where
  "pointer_to_bool nullptr = False"
| "pointer_to_bool (Addr a) = True"

definition IsValidKey :: "'a pointer \<Rightarrow> bool" where
  "IsValidKey k = pointer_to_bool k"


section \<open>The static empty arrays and the factories (array-data-inl.h)\<close>

text \<open>
  An \<open>ArrayData*\<close> is null or the address of an object. The objects named in the sources
  are the five static storage blocks declared in array-data.h. \<open>TrackedInstance l tag\<close>
  is the tracked instance that the tagging path makes of the object \<open>l\<close> for the
  provenance tag \<open>tag\<close>, a 32-bit value; every other object is \<open>HeapObject n\<close>.
\<close>

datatype location =
    s_theEmptyVec
  | s_theEmptyVArray
  | s_theEmptySetArray
  | s_theEmptyMarkedVArray
  | s_theEmptyMarkedVec
  | HeapObject nat
  | TrackedInstance location "32 word"

text \<open>
  The process-wide state read by the factories: the two runtime options and the four
  pointer variables to the canonical empty dicts and darrays.
\<close>

record Globals =
  EvalHackArrDVArrs :: bool
  EvalArrayProvenance :: bool
  s_theEmptyDictArrayPtr :: "location pointer"
  s_theEmptyDArrayPtr :: "location pointer"
  s_theEmptyMarkedDArrayPtr :: "location pointer"
  s_theEmptyMarkedDictArrayPtr :: "location pointer"

text \<open>
  Every factory takes the state of the process at the call, also where its body reads
  none of it, so that two calls at different moments are two applications.
\<close>

definition staticEmptyVArray :: "Globals \<Rightarrow> location pointer" where
  "staticEmptyVArray g =
     (if EvalHackArrDVArrs g then Addr s_theEmptyVec else Addr s_theEmptyVArray)"

definition staticEmptyMarkedVArray :: "Globals \<Rightarrow> location pointer" where
  "staticEmptyMarkedVArray g =
     (if EvalHackArrDVArrs g then Addr s_theEmptyMarkedVec else Addr s_theEmptyMarkedVArray)"

definition staticEmptyVec :: "Globals \<Rightarrow> location pointer" where
  "staticEmptyVec g = Addr s_theEmptyVec"

definition staticEmptyMarkedVec :: "Globals \<Rightarrow> location pointer" where
  "staticEmptyMarkedVec g = Addr s_theEmptyMarkedVec"

definition staticEmptyDArray :: "Globals \<Rightarrow> location pointer" where
  "staticEmptyDArray g =
     (if EvalHackArrDVArrs g then s_theEmptyDictArrayPtr g else s_theEmptyDArrayPtr g)"

definition staticEmptyMarkedDArray :: "Globals \<Rightarrow> location pointer" where
  "staticEmptyMarkedDArray g =
     (if EvalHackArrDVArrs g then s_theEmptyMarkedDictArrayPtr g
      else s_theEmptyMarkedDArrayPtr g)"

definition staticEmptyDictArray :: "Globals \<Rightarrow> location pointer" where
  "staticEmptyDictArray g = s_theEmptyDictArrayPtr g"

definition staticEmptyMarkedDictArray :: "Globals \<Rightarrow> location pointer" where
  "staticEmptyMarkedDictArray g = s_theEmptyMarkedDictArrayPtr g"

definition staticEmptyKeysetArray :: "Globals \<Rightarrow> location pointer" where
  "staticEmptyKeysetArray g = Addr s_theEmptySetArray"

definition CreateVec :: "Globals \<Rightarrow> bool \<Rightarrow> location pointer" where
  "CreateVec g legacy = (if legacy then staticEmptyMarkedVec g else staticEmptyVec g)"

definition CreateDict :: "Globals \<Rightarrow> bool \<Rightarrow> location pointer" where
  "CreateDict g legacy =
     (if legacy then staticEmptyMarkedDictArray g else staticEmptyDictArray g)"

definition CreateKeyset :: "Globals \<Rightarrow> location pointer" where
  "CreateKeyset g = staticEmptyKeysetArray g"

text \<open>
  \<open>arrprov::Tag\<close> fills the 32-bit \<open>m_extra\<close> slot. \<open>arrprov::tagStaticArr\<close> is defined
  outside the sources; the factories take it as the parameter \<open>tagStaticArr\<close>.
\<close>

type_synonym Tag = "32 word"

definition CreateVArray ::
  "(location pointer \<Rightarrow> Tag \<Rightarrow> location pointer) \<Rightarrow> Globals \<Rightarrow> Tag \<Rightarrow> bool \<Rightarrow>
     location pointer" where
  "CreateVArray tagStaticArr g tag legacy =
     (if EvalHackArrDVArrs g then CreateVec g legacy
      else if legacy then staticEmptyMarkedVArray g
      else (let ad = staticEmptyVArray g
            in if EvalArrayProvenance g then tagStaticArr ad tag else ad))"

definition CreateDArray ::
  "(location pointer \<Rightarrow> Tag \<Rightarrow> location pointer) \<Rightarrow> Globals \<Rightarrow> Tag \<Rightarrow> bool \<Rightarrow>
     location pointer" where
  "CreateDArray tagStaticArr g tag legacy =
     (if EvalHackArrDVArrs g then CreateDict g legacy
      else if legacy then staticEmptyMarkedDArray g
      else (let ad = staticEmptyDArray g
            in if EvalArrayProvenance g then tagStaticArr ad tag else ad))"

definition Create ::
  "(location pointer \<Rightarrow> Tag \<Rightarrow> location pointer) \<Rightarrow> Globals \<Rightarrow> bool \<Rightarrow> location pointer" where
  "Create tagStaticArr g legacy =
     CreateDArray tagStaticArr g kDefaultVanillaArrayExtra legacy"

text \<open>
  Modelled from the spec: the initialisers of the static storage blocks (array-data.cpp
  and the vanilla layouts are not among the sources). The pool holds "immortal,
  zero-refcount canonical instances for the always-empty case of each (kind x mode)
  combination": each block holds a header of its kind with size 0, the marked ones with
  the legacy flag, all with the default untagged \<open>m_extra\<close>.
\<close>

definition static_header :: "ArrayKind \<Rightarrow> bool \<Rightarrow> ArrayData" where
  "static_header k legacy =
     \<lparr>m_count = 0, m_kind = k, m_aux16 = (if legacy then word_of_int kLegacyArray else 0),
      m_size = 0, m_extra = kDefaultVanillaArrayExtra\<rparr>"

fun static_storage :: "location \<Rightarrow> ArrayData option" where
  "static_storage s_theEmptyVec = Some (static_header kVecKind False)"
| "static_storage s_theEmptyVArray = Some (static_header kPackedKind False)"
| "static_storage s_theEmptySetArray = Some (static_header kKeysetKind False)"
| "static_storage s_theEmptyMarkedVArray = Some (static_header kPackedKind True)"
| "static_storage s_theEmptyMarkedVec = Some (static_header kVecKind True)"
| "static_storage (HeapObject n) = None"
| "static_storage (TrackedInstance l tag) = None"

text \<open>\<open>p->size()\<close> in a memory: \<open>None\<close> for a null pointer or an address holding no array.\<close>

fun size_at :: "(location \<Rightarrow> ArrayData option) \<Rightarrow> location pointer \<Rightarrow> nat option" where
  "size_at mem nullptr = None"
| "size_at mem (Addr l) = map_option size_ad (mem l)"

text \<open>
  The provenance tag of the array at a pointer: with \<open>EvalArrayProvenance\<close> on, \<open>m_extra\<close>
  stores the \<open>arrprov::Tag\<close> (array-data.h), and \<open>kDefaultVanillaArrayExtra\<close> is the
  default tag, that of an untagged array.
\<close>

fun extra_at :: "(location \<Rightarrow> ArrayData option) \<Rightarrow> location pointer \<Rightarrow> Tag option" where
  "extra_at mem nullptr = None"
| "extra_at mem (Addr l) = map_option m_extra (mem l)"

text \<open>
  The static pool: the addresses of the five static storage blocks and the values of the
  four pointers to the canonical empty dicts and darrays (array-data.h).
\<close>

definition static_pool :: "Globals \<Rightarrow> location pointer list" where
  "static_pool g =
     [Addr s_theEmptyVec, Addr s_theEmptyVArray, Addr s_theEmptySetArray,
      Addr s_theEmptyMarkedVArray, Addr s_theEmptyMarkedVec, s_theEmptyDictArrayPtr g,
      s_theEmptyDArrayPtr g, s_theEmptyMarkedDArrayPtr g, s_theEmptyMarkedDictArrayPtr g]"

text \<open>
  Modelled from the spec: the contract of \<open>arrprov::tagStaticArr\<close> (array-provenance.cpp
  is not among the sources): "accessing a canonical singleton through a tagging path must
  clone into a tracked instance; the pool itself holds only untagged canonical copies".
  In the memory \<open>mem\<close>, every array of the pool carries the default tag, and the tagging
  function applied to an array of the pool and a tag returns an array that is not in the
  pool and carries the tag.
\<close>

definition tagStaticArr_contract ::
  "Globals \<Rightarrow> (location \<Rightarrow> ArrayData option) \<Rightarrow>
     (location pointer \<Rightarrow> Tag \<Rightarrow> location pointer) \<Rightarrow> bool" where
  "tagStaticArr_contract g mem tagStaticArr \<longleftrightarrow>
     (\<forall>ad \<in> set (static_pool g). extra_at mem ad = Some kDefaultVanillaArrayExtra) \<and>
     (\<forall>ad \<in> set (static_pool g). \<forall>tag.
        tagStaticArr ad tag \<notin> set (static_pool g) \<and>
        extra_at mem (tagStaticArr ad tag) = Some tag)"

text \<open>
  Modelled from the spec: a tagging function that meets the contract, and the memory it
  works in. The clone of the array at \<open>l\<close> for a tag is the tracked instance of \<open>l\<close> and
  that tag, a different object for every array and every tag; it holds the header of the
  array at \<open>l\<close> with the tag in \<open>m_extra\<close>. A null pointer has no clone.
\<close>

fun tagStaticArr_clone :: "location pointer \<Rightarrow> Tag \<Rightarrow> location pointer" where
  "tagStaticArr_clone nullptr tag = nullptr"
| "tagStaticArr_clone (Addr l) tag = Addr (TrackedInstance l tag)"

fun tracked_storage :: "(location \<Rightarrow> ArrayData option) \<Rightarrow> location \<Rightarrow> ArrayData option" where
  "tracked_storage mem (TrackedInstance l tag) =
     map_option (\<lambda>a. a\<lparr>m_extra := tag\<rparr>) (tracked_storage mem l)"
| "tracked_storage mem l = mem l"

text \<open>
  Modelled from the spec: "the pool itself holds only untagged canonical copies". Every
  pointer of the pool is the address of an array that carries the default tag and is not
  a tracked instance.
\<close>

fun canonical_untagged :: "(location \<Rightarrow> ArrayData option) \<Rightarrow> location pointer \<Rightarrow> bool" where
  "canonical_untagged mem nullptr = False"
| "canonical_untagged mem (Addr (TrackedInstance l tag)) = False"
| "canonical_untagged mem (Addr l) = (map_option m_extra (mem l) = Some kDefaultVanillaArrayExtra)"

definition pool_untagged :: "Globals \<Rightarrow> (location \<Rightarrow> ArrayData option) \<Rightarrow> bool" where
  "pool_untagged g mem \<longleftrightarrow> list_all (canonical_untagged mem) (static_pool g)"

section \<open>Release (array-data-inl.h)\<close>

text \<open>
  \<open>g_array_funcs.release[k]\<close> is a table of function pointers filled elsewhere; a call
  through row \<open>k\<close> is recorded as the event \<open>ArrayFuncsRelease k\<close>.
  \<open>decReleaseCheck\<close> and \<open>hasMultipleRefs\<close> belong to the counted-object header, defined
  outside the sources: both are parameters, \<open>decReleaseCheck\<close> returning its result and
  the header it leaves behind.
\<close>

datatype event = ArrayFuncsRelease ArrayKind

definition release :: "(ArrayData \<Rightarrow> bool) \<Rightarrow> ArrayData \<Rightarrow> event list option" where
  "release hasMultipleRefs ad =
     (if hasMultipleRefs ad then None
      else (case kind ad of None \<Rightarrow> None | Some k \<Rightarrow> Some [ArrayFuncsRelease k]))"

definition decRefAndRelease ::
  "(ArrayData \<Rightarrow> bool \<times> ArrayData) \<Rightarrow> (ArrayData \<Rightarrow> bool) \<Rightarrow> ArrayData \<Rightarrow>
     (ArrayData \<times> event list) option" where
  "decRefAndRelease decReleaseCheck hasMultipleRefs ad =
     (if \<not> kindIsValid ad then None
      else (case decReleaseCheck ad of
              (True, ad') \<Rightarrow> map_option (Pair ad') (release hasMultipleRefs ad')
            | (False, ad') \<Rightarrow> Some (ad', [])))"

definition decRefArr ::
  "(ArrayData \<Rightarrow> bool \<times> ArrayData) \<Rightarrow> (ArrayData \<Rightarrow> bool) \<Rightarrow> ArrayData \<Rightarrow>
     (ArrayData \<times> event list) option" where
  "decRefArr decReleaseCheck hasMultipleRefs arr =
     decRefAndRelease decReleaseCheck hasMultipleRefs arr"

section \<open>Bespoke layouts (bespoke/layout.h)\<close>

text \<open>The layout bytes of the layout families, as declared (binary literals in the source).\<close>

definition kLoggingLayoutByte :: "8 word" where "kLoggingLayoutByte = 0x0E"
definition kMonotypeVecLayoutByte :: "8 word" where "kMonotypeVecLayoutByte = 0x0D"
definition kEmptyMonotypeVecLayoutByte :: "8 word" where "kEmptyMonotypeVecLayoutByte = 0x0C"
definition kIntMonotypeDictLayoutByte :: "8 word" where "kIntMonotypeDictLayoutByte = 0x0B"
definition kStrMonotypeDictLayoutByte :: "8 word" where "kStrMonotypeDictLayoutByte = 0x07"
definition kStaticStrMonotypeDictLayoutByte :: "8 word" where
  "kStaticStrMonotypeDictLayoutByte = 0x06"
definition kEmptyMonotypeDictLayoutByte :: "8 word" where "kEmptyMonotypeDictLayoutByte = 0x02"
definition kStructLayoutByte :: "8 word" where "kStructLayoutByte = 0x0F"
definition kMaxLayoutByte :: "8 word" where "kMaxLayoutByte = kStructLayoutByte"

definition layout_bytes :: "8 word list" where
  "layout_bytes =
     [kLoggingLayoutByte, kMonotypeVecLayoutByte, kEmptyMonotypeVecLayoutByte,
      kIntMonotypeDictLayoutByte, kStrMonotypeDictLayoutByte,
      kStaticStrMonotypeDictLayoutByte, kEmptyMonotypeDictLayoutByte, kStructLayoutByte]"


text \<open>
  \<open>LayoutIndex\<close> is declared outside the sources; layout.h initialises it from one
  integer and stores it in the upper 16 bits of \<open>m_extra\<close>, so it wraps a \<open>uint16_t\<close>.
\<close>

datatype LayoutIndex = LayoutIndex (raw: "16 word")


text \<open>The upper byte of an index.\<close>

definition layoutByte :: "LayoutIndex \<Rightarrow> 8 word" where
  "layoutByte i = ucast (drop_bit 8 (raw i))"

text \<open>
  Modelled from the spec: the index check of a registration (layout.cpp is not among the
  sources). The index must lie "within its family's reserved byte"; layout.h states the
  same restriction: the upper byte of a bespoke layout's index must match the layout
  byte of its layout family.
\<close>

definition index_in_family :: "LayoutIndex \<Rightarrow> bool" where
  "index_in_family i \<longleftrightarrow> layoutByte i \<in> set layout_bytes"

text \<open>
  The members of \<open>Layout\<close> that the type operations read. \<open>m_vtable\<close> is a pointer to a
  table of functions, \<open>m_parents\<close> a set of indices kept as a list, \<open>isConcrete\<close> the
  result of the virtual function of that name; \<open>m_ancestors\<close> and \<open>m_descendants\<close> are
  filled when the hierarchy is sealed.
\<close>

record Layout =
  m_index :: LayoutIndex
  m_description :: string
  m_parents :: "LayoutIndex list"
  m_vtable :: "nat pointer"
  isConcrete :: bool
  m_ancestors :: "LayoutIndex list"
  m_descendants :: "LayoutIndex list"

text \<open>
  Modelled from the spec: the layout hierarchy and its operations (layout.cpp is not among
  the sources; layout.h only declares \<open>FromIndex\<close>, \<open>FinalizeHierarchy\<close> and the
  operators). The hierarchy is the list of registered layouts, the most recent first, a
  flag telling whether it is sealed, and the index of the top layout.
\<close>

record Hierarchy =
  layouts :: "Layout list"
  hierarchyFinal :: bool
  bespokeTop :: LayoutIndex

datatype error = FatalError

definition indices :: "Hierarchy \<Rightarrow> LayoutIndex list" where
  "indices h = map m_index (layouts h)"

definition FromIndex :: "Hierarchy \<Rightarrow> LayoutIndex \<Rightarrow> Layout option" where
  "FromIndex h i = find (\<lambda>l. m_index l = i) (layouts h)"

text \<open>
  Modelled from the spec: the hierarchy before any registration. After
  \<open>ClearHierarchy\<close> "the only layout will be the BespokeTop one" (layout.h); its index is
  the result of \<open>GetBespokeTopIndex\<close>, a parameter here.
\<close>

definition InitializeLayouts :: "LayoutIndex \<Rightarrow> Hierarchy" where
  "InitializeLayouts topIndex =
     \<lparr>layouts =
        [\<lparr>m_index = topIndex, m_description = ''BespokeTop'', m_parents = [],
          m_vtable = nullptr, isConcrete = False, m_ancestors = [], m_descendants = []\<rparr>],
      hierarchyFinal = False, bespokeTop = topIndex\<rparr>"

text \<open>
  Modelled from the spec: "Register(index, description, parents, vtable?): parents must
  already exist (topological order enforced); index must be unique, within its family's
  reserved byte; concrete registrations require a non-null vtable, abstract ones forbid
  it." Registration belongs to the phase before sealing. A violated requirement is the
  fatal error.
\<close>

definition Register ::
  "Hierarchy \<Rightarrow> LayoutIndex \<Rightarrow> string \<Rightarrow> LayoutIndex list \<Rightarrow> nat pointer \<Rightarrow> bool \<Rightarrow>
     error + Hierarchy" where
  "Register h index description parents vtable concrete =
     (if hierarchyFinal h then Inl FatalError
      else if \<not> list_all (\<lambda>p. p \<in> set (indices h)) parents then Inl FatalError
      else if index \<in> set (indices h) then Inl FatalError
      else if \<not> index_in_family index then Inl FatalError
      else if concrete \<noteq> (vtable \<noteq> nullptr) then Inl FatalError
      else Inr (h\<lparr>layouts :=
                   \<lparr>m_index = index, m_description = description, m_parents = parents,
                    m_vtable = vtable, isConcrete = concrete, m_ancestors = [],
                    m_descendants = []\<rparr> # layouts h\<rparr>))"

text \<open>A registration phase: the registrations in order, stopping at the first error.\<close>

type_synonym registration = "LayoutIndex \<times> string \<times> LayoutIndex list \<times> nat pointer \<times> bool"

fun register_all :: "Hierarchy \<Rightarrow> registration list \<Rightarrow> error + Hierarchy" where
  "register_all h [] = Inr h"
| "register_all h ((index, description, parents, vtable, concrete) # rs) =
     (case Register h index description parents vtable concrete of
        Inl e \<Rightarrow> Inl e
      | Inr h' \<Rightarrow> register_all h' rs)"

text \<open>
  Modelled from the spec: the "derived ancestor/descendant closures". The ancestors of a
  layout are the layout itself and the ancestors of its parents ("the transitive closure
  of the parent edges", layout.h); parents are registered earlier, so they are found in
  the rest of the list. The descendants of a layout are the layouts that have it as an
  ancestor; every layout is a descendant of the top layout \<open>t\<close>.
\<close>

fun computeAncestors :: "Layout list \<Rightarrow> LayoutIndex \<Rightarrow> LayoutIndex list" where
  "computeAncestors [] i = []"
| "computeAncestors (l # ls) i =
     (if m_index l = i then i # concat (map (computeAncestors ls) (m_parents l))
      else computeAncestors ls i)"

definition computeDescendants ::
  "LayoutIndex \<Rightarrow> Layout list \<Rightarrow> LayoutIndex \<Rightarrow> LayoutIndex list" where
  "computeDescendants t ls i =
     filter (\<lambda>d. i = t \<or> i \<in> set (computeAncestors ls d)) (map m_index ls)"

text \<open>
  Modelled from the spec: "FinalizeHierarchy() (computes closures, makes the lattice
  immutable)".
\<close>

definition FinalizeHierarchy :: "Hierarchy \<Rightarrow> Hierarchy" where
  "FinalizeHierarchy h =
     h\<lparr>layouts :=
         map (\<lambda>l. l\<lparr>m_ancestors := computeAncestors (layouts h) (m_index l),
                    m_descendants :=
                      computeDescendants (bespokeTop h) (layouts h) (m_index l)\<rparr>)
           (layouts h),
       hierarchyFinal := True\<rparr>"

text \<open>
  Modelled from the spec: the answer of \<open><=\<close> on a sealed hierarchy, read from the
  precomputed closure of the left operand. The top node is universal: every layout is
  below it, also one whose parent edges do not lead there.
\<close>

definition isDescendantOf :: "Hierarchy \<Rightarrow> LayoutIndex \<Rightarrow> LayoutIndex \<Rightarrow> bool" where
  "isDescendantOf h a b =
     (b = bespokeTop h \<or>
      (case FromIndex h a of None \<Rightarrow> False | Some la \<Rightarrow> b \<in> set (m_ancestors la)))"

text \<open>
  Modelled from the spec: "IsDescendantOf (\<open><=\<close>): O(1) after sealing via precomputed
  closures; before sealing, valid only against the universal top node", and "any
  ordering/meet/join query on a non-top node before finalization is a fatal programming
  error". The operands are layouts, that is, registered indices. Before sealing the
  query is answered when both operands are the top node, the case on which the two
  sentences agree, and is fatal otherwise.
\<close>

definition Layout_le :: "Hierarchy \<Rightarrow> LayoutIndex \<Rightarrow> LayoutIndex \<Rightarrow> error + bool" where
  "Layout_le h a b =
     (if a \<notin> set (indices h) \<or> b \<notin> set (indices h) then Inl FatalError
      else if \<not> hierarchyFinal h then
        (if a = bespokeTop h \<and> b = bespokeTop h then Inr True else Inl FatalError)
      else Inr (isDescendantOf h a b))"

text \<open>
  Modelled from the spec: "Join (\<open>|\<close>): least upper bound (most specific common ancestor;
  falls back to top if none exists)".
\<close>

definition Layout_join :: "Hierarchy \<Rightarrow> LayoutIndex \<Rightarrow> LayoutIndex \<Rightarrow> error + LayoutIndex" where
  "Layout_join h a b =
     (if a \<notin> set (indices h) \<or> b \<notin> set (indices h) then Inl FatalError
      else if \<not> hierarchyFinal h then
        (if a = bespokeTop h \<and> b = bespokeTop h then Inr (bespokeTop h) else Inl FatalError)
      else
        (let common = filter (\<lambda>c. isDescendantOf h a c \<and> isDescendantOf h b c) (indices h);
             least = filter (\<lambda>c. list_all (\<lambda>d. isDescendantOf h c d) common) common
         in case least of [] \<Rightarrow> Inr (bespokeTop h) | c # _ \<Rightarrow> Inr c))"

text \<open>
  Modelled from the spec: "Meet (\<open>&\<close>): greatest common descendant, or bottom if
  disjoint". The bottom type is the null layout (layout.h), here \<open>None\<close>.
\<close>

definition Layout_meet ::
  "Hierarchy \<Rightarrow> LayoutIndex \<Rightarrow> LayoutIndex \<Rightarrow> error + LayoutIndex option" where
  "Layout_meet h a b =
     (if a \<notin> set (indices h) \<or> b \<notin> set (indices h) then Inl FatalError
      else if \<not> hierarchyFinal h then
        (if a = bespokeTop h \<and> b = bespokeTop h then Inr (Some (bespokeTop h))
         else Inl FatalError)
      else
        (let common = filter (\<lambda>d. isDescendantOf h d a \<and> isDescendantOf h d b) (indices h);
             greatest = filter (\<lambda>g. list_all (\<lambda>d. isDescendantOf h d g) common) common
         in case greatest of [] \<Rightarrow> Inr None | g # _ \<Rightarrow> Inr (Some g)))"

text \<open>
  The invariant of the registration phase, in the spec's words: "construction order is a
  topological sort w.r.t. parents; indices are unique". The oldest layout is the top
  layout, which has no parents.
\<close>

fun topo_sorted :: "Layout list \<Rightarrow> bool" where
  "topo_sorted [] = True"
| "topo_sorted (l # ls) =
     (m_index l \<notin> set (map m_index ls) \<and>
      list_all (\<lambda>p. p \<in> set (map m_index ls)) (m_parents l) \<and> topo_sorted ls)"

definition phase_inv :: "LayoutIndex \<Rightarrow> Hierarchy \<Rightarrow> bool" where
  "phase_inv t h \<longleftrightarrow>
     topo_sorted (layouts h) \<and> layouts h \<noteq> [] \<and> m_index (last (layouts h)) = t \<and>
     m_parents (last (layouts h)) = [] \<and> bespokeTop h = t"

section \<open>Properties of the header\<close>

lemmas ArrayKind_defs =
  kMixedKind_def kBespokeDArrayKind_def kPackedKind_def kBespokeVArrayKind_def
  kDictKind_def kBespokeDictKind_def kVecKind_def kBespokeVecKind_def
  kKeysetKind_def kBespokeKeysetKind_def kNumKinds_def

lemma low_bit_even: "(z::int) AND 1 = 0 \<longleftrightarrow> even z"
  by (simp add: and_one_eq even_iff_mod_2_eq_zero)

lemma or_mask_low: "((x::int) OR y) AND 1 = 0 \<longleftrightarrow> x AND 1 = 0 \<and> y AND 1 = 0"
  by (simp only: low_bit_even even_or_iff)

text \<open>The valid kind bytes are exactly the ten declared enumerators.\<close>

lemma valid_kind_cases:
  assumes "isArrayKind k"
  shows "k \<in> set declared_kinds"
proof -
  have "unat k < 10"
    using assms by (simp add: isArrayKind_def kNumKinds_def word_less_nat_alt)
  then have "unat k \<in> {0, 1, 2, 3, 4, 5, 6, 7, 8, 9}"
    by auto
  then have "k \<in> {0, 1, 2, 3, 4, 5, 6, 7, 8, 9}"
    by (auto simp: unat_eq_0 dest!: arg_cong [where f = "of_nat :: nat \<Rightarrow> 8 word"])
  then show ?thesis
    by (simp add: declared_kinds_def ArrayKind_defs)
qed

lemma declared_kinds_valid: "k \<in> set declared_kinds \<Longrightarrow> isArrayKind k"
  by (auto simp: declared_kinds_def ArrayKind_defs isArrayKind_def)

text \<open>
  C4. For two handles with valid kind tags, \<open>bothVanilla\<close> returns, and returns true
  exactly when \<open>isVanilla\<close> returns true on each of the two.
\<close>

theorem bothVanilla_iff:
  assumes "kindIsValid a" and "kindIsValid b"
  shows "bothVanilla a b = Some (isVanilla a = Some True \<and> isVanilla b = Some True)"
  using assms
  by (simp add: bothVanilla_def isVanilla_def kind_def kBespokeKindMask_def or_mask_low)

theorem bothVanilla_iff_witness:
  "kindIsValid \<lparr>m_count = 1, m_kind = kVecKind, m_aux16 = 0, m_size = 0, m_extra = 0\<rparr> \<and>
   kindIsValid \<lparr>m_count = 1, m_kind = kBespokeDictKind, m_aux16 = 0, m_size = 0, m_extra = 0\<rparr> \<and>
   bothVanilla \<lparr>m_count = 1, m_kind = kVecKind, m_aux16 = 0, m_size = 0, m_extra = 0\<rparr>
     \<lparr>m_count = 1, m_kind = kBespokeDictKind, m_aux16 = 0, m_size = 0, m_extra = 0\<rparr> =
     Some False"
proof -
  let ?a = "\<lparr>m_count = 1, m_kind = kVecKind, m_aux16 = 0, m_size = 0, m_extra = 0\<rparr>"
  let ?b = "\<lparr>m_count = 1, m_kind = kBespokeDictKind, m_aux16 = 0, m_size = 0, m_extra = 0\<rparr>"
  have va: "kindIsValid ?a"
    by (simp add: kindIsValid_def isArrayKind_def ArrayKind_defs)
  have vb: "kindIsValid ?b"
    by (simp add: kindIsValid_def isArrayKind_def ArrayKind_defs)
  have "isVanilla ?b = Some False"
    using vb by (simp add: isVanilla_def kind_def kBespokeKindMask_def ArrayKind_defs)
  then show ?thesis
    using va vb bothVanilla_iff [OF va vb] by simp
qed

text \<open>
  C5. For a handle with a valid kind tag, the range comparison of \<open>isDVArray\<close> returns
  true exactly when the kind is one of the four dvarray kinds, and exactly when
  \<open>isVArray\<close> or \<open>isDArray\<close> returns true.
\<close>

theorem isDVArray_iff:
  assumes "kindIsValid ad"
  shows "isDVArray ad =
           Some (m_kind ad \<in> {kMixedKind, kBespokeDArrayKind, kPackedKind, kBespokeVArrayKind}) \<and>
         isDVArray ad = Some (isVArray ad = Some True \<or> isDArray ad = Some True)"
proof -
  have "m_kind ad \<in> set declared_kinds"
    using assms by (simp add: kindIsValid_def valid_kind_cases)
  then show ?thesis
    using assms unfolding declared_kinds_def
    by (auto simp: isDVArray_def isVArray_def isDArray_def kind_def kBespokeKindMask_def
        ArrayKind_defs)
qed

theorem isDVArray_iff_witness:
  "kindIsValid \<lparr>m_count = 1, m_kind = kBespokeVArrayKind, m_aux16 = 0, m_size = 0, m_extra = 0\<rparr> \<and>
   isDVArray \<lparr>m_count = 1, m_kind = kBespokeVArrayKind, m_aux16 = 0, m_size = 0, m_extra = 0\<rparr> =
     Some True \<and>
   isDArray \<lparr>m_count = 1, m_kind = kBespokeVArrayKind, m_aux16 = 0, m_size = 0, m_extra = 0\<rparr> =
     Some False"
proof -
  let ?a = "\<lparr>m_count = 1, m_kind = kBespokeVArrayKind, m_aux16 = 0, m_size = 0, m_extra = 0\<rparr>"
  have va: "kindIsValid ?a"
    by (simp add: kindIsValid_def isArrayKind_def ArrayKind_defs)
  have "isDArray ?a = Some False"
    using va by (simp add: isDArray_def kind_def ArrayKind_defs)
  then show ?thesis
    using va isDVArray_iff [OF va] by (simp add: ArrayKind_defs)
qed

text \<open>
  C6. For each of the ten declared kinds, \<open>isVanilla\<close> returns true exactly when the low
  bit \<open>kBespokeKindMask\<close> of the kind is clear; the kinds with the bit set are the five
  bespoke kinds, the kinds with the bit clear the five vanilla kinds.
\<close>

theorem isVanilla_single_bit:
  assumes "m_kind ad \<in> set declared_kinds"
  shows "isVanilla ad = Some (m_kind ad AND 0x01 = 0) \<and>
         (isVanilla ad = Some False \<longleftrightarrow> m_kind ad \<in> set bespoke_kinds) \<and>
         (isVanilla ad = Some True \<longleftrightarrow> m_kind ad \<in> set vanilla_kinds)"
proof -
  have "kindIsValid ad"
    using assms by (simp add: kindIsValid_def declared_kinds_valid)
  then show ?thesis
    using assms unfolding declared_kinds_def bespoke_kinds_def vanilla_kinds_def
    by (auto simp: isVanilla_def kind_def kBespokeKindMask_def ArrayKind_defs)
qed

theorem isVanilla_single_bit_witness:
  "kBespokeKeysetKind \<in> set declared_kinds \<and>
   isVanilla \<lparr>m_count = 1, m_kind = kBespokeKeysetKind, m_aux16 = 0, m_size = 0, m_extra = 0\<rparr> =
     Some False \<and>
   kBespokeKeysetKind \<in> set bespoke_kinds"
proof -
  let ?a = "\<lparr>m_count = 1, m_kind = kBespokeKeysetKind, m_aux16 = 0, m_size = 0, m_extra = 0\<rparr>"
  have d: "m_kind ?a \<in> set declared_kinds"
    by (simp add: declared_kinds_def)
  have "m_kind ?a AND 0x01 \<noteq> 0"
    by (simp add: ArrayKind_defs)
  then show ?thesis
    using d isVanilla_single_bit [OF d] by auto
qed

text \<open>
  C9. \<open>IsValidKey\<close> on a string pointer returns true exactly when the pointer is not
  null.
\<close>

theorem IsValidKey_iff: "IsValidKey k \<longleftrightarrow> k \<noteq> nullptr"
  by (cases k) (simp_all add: IsValidKey_def)

lemma auxBits_Some:
  "auxBits ad = Some (word_of_int (uint (m_aux16 ad) AND (kLegacyArray OR kSampledArray)))"
proof -
  have "uint (m_aux16 ad) AND 10 \<le> 10"
    by simp
  then have "uint (m_aux16 ad) AND 10 \<le> 255"
    by linarith
  then show ?thesis
    by (simp add: auxBits_def safe_cast_uint8_def kLegacyArray_def kSampledArray_def)
qed

lemma uint_auxBits:
  "uint (word_of_int (uint (a::16 word) AND 10) :: 8 word) = uint a AND 10"
proof -
  have "uint a AND 10 \<le> 10"
    by simp
  moreover have "0 \<le> uint a AND 10"
    by simp
  ultimately have "uint a AND 10 < 2 ^ 8" and "0 \<le> uint a AND 10"
    by simp_all
  then show ?thesis
    by (simp add: uint_word_of_int take_bit_int_eq_self)
qed

lemma and_and_const:
  "((x::int) AND 10) AND 1 = 0"
  "((x::int) AND 10) AND 4 = 0"
  "((x::int) AND 10) AND 2 = x AND 2"
  "((x::int) AND 10) AND 8 = x AND 8"
  by (simp_all add: and.assoc)

text \<open>
  C10. \<open>auxBits\<close> always returns, and its value is the aux halfword masked with the
  legacy-array and the sampled-array flag: the has-apc-tv and the has-str-key-table bit
  are clear in it, the other two bits are those of the handle. A header whose aux
  halfword is initialised from that value, as a copy's is, has neither of the two
  flags and the same legacy and sampled flags.
\<close>

theorem auxBits_preserved:
  "case auxBits ad of None \<Rightarrow> False
   | Some v \<Rightarrow>
       uint v = uint (m_aux16 ad) AND (kLegacyArray OR kSampledArray) \<and>
       uint v AND kHasApcTv = 0 \<and> uint v AND kHasStrKeyTable = 0 \<and>
       (uint v AND kLegacyArray \<noteq> 0) = isLegacyArray ad \<and>
       (uint v AND kSampledArray \<noteq> 0) = isSampledArray ad \<and>
       (\<forall>ad'. m_aux16 ad' = ucast v \<longrightarrow>
          \<not> hasApcTv ad' \<and> \<not> hasStrKeyTable ad' \<and>
          isLegacyArray ad' = isLegacyArray ad \<and> isSampledArray ad' = isSampledArray ad)"
proof -
  let ?v = "word_of_int (uint (m_aux16 ad) AND 10) :: 8 word"
  have u: "uint ?v = uint (m_aux16 ad) AND 10"
    by (rule uint_auxBits)
  have uc: "uint (ucast ?v :: 16 word) = uint ?v"
    by (simp add: uint_up_ucast is_up)
  show ?thesis
    by (simp add: auxBits_Some uc u and_and_const
        kLegacyArray_def kSampledArray_def kHasApcTv_def kHasStrKeyTable_def
        hasApcTv_def hasStrKeyTable_def isLegacyArray_def isSampledArray_def)
qed

theorem auxBits_preserved_witness:
  "auxBits \<lparr>m_count = 1, m_kind = kDictKind, m_aux16 = 15, m_size = 3, m_extra = 0\<rparr> = Some 10 \<and>
   hasApcTv \<lparr>m_count = 1, m_kind = kDictKind, m_aux16 = 15, m_size = 3, m_extra = 0\<rparr> \<and>
   hasStrKeyTable \<lparr>m_count = 1, m_kind = kDictKind, m_aux16 = 15, m_size = 3, m_extra = 0\<rparr> \<and>
   m_aux16 \<lparr>m_count = 1, m_kind = kDictKind, m_aux16 = 10, m_size = 3, m_extra = 0\<rparr> = ucast (10 :: 8 word) \<and>
   \<not> hasApcTv \<lparr>m_count = 1, m_kind = kDictKind, m_aux16 = 10, m_size = 3, m_extra = 0\<rparr> \<and>
   \<not> hasStrKeyTable \<lparr>m_count = 1, m_kind = kDictKind, m_aux16 = 10, m_size = 3, m_extra = 0\<rparr> \<and>
   isLegacyArray \<lparr>m_count = 1, m_kind = kDictKind, m_aux16 = 10, m_size = 3, m_extra = 0\<rparr>"
proof -
  let ?a = "\<lparr>m_count = 1, m_kind = kDictKind, m_aux16 = 15, m_size = 3, m_extra = 0\<rparr>"
  let ?c = "\<lparr>m_count = 1, m_kind = kDictKind, m_aux16 = 10, m_size = 3, m_extra = 0\<rparr>"
  have v: "auxBits ?a = Some 10"
    by (simp add: auxBits_def safe_cast_uint8_def kLegacyArray_def kSampledArray_def)
  have c: "m_aux16 ?c = ucast (10 :: 8 word)"
    by simp
  have flags: "hasApcTv ?a" "hasStrKeyTable ?a" "isLegacyArray ?a"
    by (simp_all add: hasApcTv_def hasStrKeyTable_def isLegacyArray_def kHasApcTv_def
        kHasStrKeyTable_def kLegacyArray_def)
  from auxBits_preserved [of ?a] v
  have "\<forall>ad'. m_aux16 ad' = ucast (10 :: 8 word) \<longrightarrow>
          \<not> hasApcTv ad' \<and> \<not> hasStrKeyTable ad' \<and>
          isLegacyArray ad' = isLegacyArray ?a \<and> isSampledArray ad' = isSampledArray ?a"
    by simp
  then have "\<not> hasApcTv ?c \<and> \<not> hasStrKeyTable ?c \<and> isLegacyArray ?c = isLegacyArray ?a"
    using c by blast
  then show ?thesis
    using v c flags by simp
qed

section \<open>Properties of the factories\<close>

text \<open>
  C1. Two calls of \<open>CreateVec\<close> with the same legacy argument, at any two states of the
  process, return the same pointer: the address of \<open>s_theEmptyVec\<close> for \<open>false\<close> and
  of \<open>s_theEmptyMarkedVec\<close> for \<open>true\<close>, two distinct objects. The array at either
  address has size 0.
\<close>

theorem CreateVec_singletons:
  "CreateVec g1 legacy = CreateVec g2 legacy \<and>
   CreateVec g1 False = Addr s_theEmptyVec \<and>
   CreateVec g1 True = Addr s_theEmptyMarkedVec \<and>
   CreateVec g1 True \<noteq> CreateVec g2 False \<and>
   size_at static_storage (CreateVec g1 legacy) = Some 0"
  by (simp add: CreateVec_def staticEmptyVec_def staticEmptyMarkedVec_def static_header_def
      size_ad_def)

lemma tagStaticArr_clone_contract:
  assumes "pool_untagged g mem"
  shows "tagStaticArr_contract g (tracked_storage mem) tagStaticArr_clone"
proof -
  have canon: "canonical_untagged mem ad" if "ad \<in> set (static_pool g)" for ad
    using assms that by (simp add: pool_untagged_def list_all_iff)
  have shape: "\<exists>l. ad = Addr l \<and> (\<forall>l' t. l \<noteq> TrackedInstance l' t) \<and>
                 tracked_storage mem l = mem l \<and>
                 map_option m_extra (mem l) = Some kDefaultVanillaArrayExtra"
    if "canonical_untagged mem ad" for ad
    using that by (cases "(mem, ad)" rule: canonical_untagged.cases) auto
  have untagged: "extra_at (tracked_storage mem) ad = Some kDefaultVanillaArrayExtra"
    if "ad \<in> set (static_pool g)" for ad
    using shape [OF canon [OF that]] by auto
  have outside: "tagStaticArr_clone ad tag \<notin> set (static_pool g)"
    if member: "ad \<in> set (static_pool g)" for ad tag
  proof
    assume "tagStaticArr_clone ad tag \<in> set (static_pool g)"
    then have "canonical_untagged mem (tagStaticArr_clone ad tag)"
      by (rule canon)
    moreover obtain l where "ad = Addr l"
      using shape [OF canon [OF member]] by blast
    ultimately show False
      by simp
  qed
  have tagged: "extra_at (tracked_storage mem) (tagStaticArr_clone ad tag) = Some tag"
    if member: "ad \<in> set (static_pool g)" for ad tag
  proof -
    obtain l where l: "ad = Addr l" "tracked_storage mem l = mem l"
      "map_option m_extra (mem l) = Some kDefaultVanillaArrayExtra"
      using shape [OF canon [OF member]] by blast
    then obtain a where "mem l = Some a"
      by auto
    with l show ?thesis
      by simp
  qed
  show ?thesis
    unfolding tagStaticArr_contract_def using untagged outside tagged by blast
qed

text \<open>
  C2, as stated, fails: with provenance tracking active, \<open>CreateVArray\<close> called with
  \<open>legacy = true\<close> returns the marked canonical singleton itself, an array of the pool and
  not the result of the tagging function; and with \<open>EvalHackArrDVArrs\<close> on it returns the
  canonical empty vec, an array of the pool, also when \<open>legacy\<close> is false.
\<close>

theorem CreateVArray_legacy_untagged:
  "EvalArrayProvenance
     \<lparr>EvalHackArrDVArrs = False, EvalArrayProvenance = True,
      s_theEmptyDictArrayPtr = Addr (HeapObject 1000),
      s_theEmptyDArrayPtr = Addr (HeapObject 1001),
      s_theEmptyMarkedDArrayPtr = Addr (HeapObject 1002),
      s_theEmptyMarkedDictArrayPtr = Addr (HeapObject 1003)\<rparr> \<and>
   CreateVArray tagStaticArr_clone
     \<lparr>EvalHackArrDVArrs = False, EvalArrayProvenance = True,
      s_theEmptyDictArrayPtr = Addr (HeapObject 1000),
      s_theEmptyDArrayPtr = Addr (HeapObject 1001),
      s_theEmptyMarkedDArrayPtr = Addr (HeapObject 1002),
      s_theEmptyMarkedDictArrayPtr = Addr (HeapObject 1003)\<rparr> 7 True =
     Addr s_theEmptyMarkedVArray \<and>
   CreateVArray tagStaticArr_clone
     \<lparr>EvalHackArrDVArrs = False, EvalArrayProvenance = True,
      s_theEmptyDictArrayPtr = Addr (HeapObject 1000),
      s_theEmptyDArrayPtr = Addr (HeapObject 1001),
      s_theEmptyMarkedDArrayPtr = Addr (HeapObject 1002),
      s_theEmptyMarkedDictArrayPtr = Addr (HeapObject 1003)\<rparr> 7 True \<noteq>
     tagStaticArr_clone (Addr s_theEmptyMarkedVArray) 7 \<and>
   Addr s_theEmptyMarkedVArray \<in> set (static_pool
     \<lparr>EvalHackArrDVArrs = False, EvalArrayProvenance = True,
      s_theEmptyDictArrayPtr = Addr (HeapObject 1000),
      s_theEmptyDArrayPtr = Addr (HeapObject 1001),
      s_theEmptyMarkedDArrayPtr = Addr (HeapObject 1002),
      s_theEmptyMarkedDictArrayPtr = Addr (HeapObject 1003)\<rparr>) \<and>
   extra_at static_storage (Addr s_theEmptyMarkedVArray) = Some kDefaultVanillaArrayExtra \<and>
   EvalArrayProvenance
     \<lparr>EvalHackArrDVArrs = True, EvalArrayProvenance = True,
      s_theEmptyDictArrayPtr = Addr (HeapObject 1000),
      s_theEmptyDArrayPtr = Addr (HeapObject 1001),
      s_theEmptyMarkedDArrayPtr = Addr (HeapObject 1002),
      s_theEmptyMarkedDictArrayPtr = Addr (HeapObject 1003)\<rparr> \<and>
   CreateVArray tagStaticArr_clone
     \<lparr>EvalHackArrDVArrs = True, EvalArrayProvenance = True,
      s_theEmptyDictArrayPtr = Addr (HeapObject 1000),
      s_theEmptyDArrayPtr = Addr (HeapObject 1001),
      s_theEmptyMarkedDArrayPtr = Addr (HeapObject 1002),
      s_theEmptyMarkedDictArrayPtr = Addr (HeapObject 1003)\<rparr> 7 False =
     Addr s_theEmptyVec \<and>
   CreateVArray tagStaticArr_clone
     \<lparr>EvalHackArrDVArrs = True, EvalArrayProvenance = True,
      s_theEmptyDictArrayPtr = Addr (HeapObject 1000),
      s_theEmptyDArrayPtr = Addr (HeapObject 1001),
      s_theEmptyMarkedDArrayPtr = Addr (HeapObject 1002),
      s_theEmptyMarkedDictArrayPtr = Addr (HeapObject 1003)\<rparr> 7 False \<noteq>
     tagStaticArr_clone (Addr s_theEmptyVec) 7 \<and>
   Addr s_theEmptyVec \<in> set (static_pool
     \<lparr>EvalHackArrDVArrs = True, EvalArrayProvenance = True,
      s_theEmptyDictArrayPtr = Addr (HeapObject 1000),
      s_theEmptyDArrayPtr = Addr (HeapObject 1001),
      s_theEmptyMarkedDArrayPtr = Addr (HeapObject 1002),
      s_theEmptyMarkedDictArrayPtr = Addr (HeapObject 1003)\<rparr>)"
  by (simp add: CreateVArray_def CreateVec_def staticEmptyVec_def staticEmptyMarkedVArray_def
      static_pool_def static_header_def)

text \<open>
  C2, amended. With provenance tracking active, \<open>CreateVArray\<close> and \<open>CreateDArray\<close>
  return the result of \<open>tagStaticArr\<close> on the canonical empty varray or darray and the
  tag, for every tag, when \<open>EvalHackArrDVArrs\<close> is off and \<open>legacy\<close> is false; with
  \<open>legacy\<close> true they return the marked canonical singleton, untagged; with
  \<open>EvalHackArrDVArrs\<close> on they return what \<open>CreateVec\<close> and \<open>CreateDict\<close> return. When
  \<open>tagStaticArr\<close> meets its contract, the array returned with \<open>EvalHackArrDVArrs\<close> off and
  \<open>legacy\<close> false is a tagged instance and not the untagged canonical singleton itself:
  it carries the tag, it is not an array of the pool, and the canonical singleton it was
  made from carries the default tag.
\<close>

theorem CreateDVArray_provenance:
  assumes "EvalArrayProvenance g"
  shows "CreateVArray tagStaticArr g tag legacy =
           (if EvalHackArrDVArrs g then CreateVec g legacy
            else if legacy then Addr s_theEmptyMarkedVArray
            else tagStaticArr (Addr s_theEmptyVArray) tag) \<and>
         CreateDArray tagStaticArr g tag legacy =
           (if EvalHackArrDVArrs g then CreateDict g legacy
            else if legacy then s_theEmptyMarkedDArrayPtr g
            else tagStaticArr (s_theEmptyDArrayPtr g) tag) \<and>
         (tagStaticArr_contract g mem tagStaticArr \<and> \<not> EvalHackArrDVArrs g \<longrightarrow>
            CreateVArray tagStaticArr g tag False = tagStaticArr (staticEmptyVArray g) tag \<and>
            extra_at mem (CreateVArray tagStaticArr g tag False) = Some tag \<and>
            CreateVArray tagStaticArr g tag False \<notin> set (static_pool g) \<and>
            CreateVArray tagStaticArr g tag False \<noteq> staticEmptyVArray g \<and>
            extra_at mem (staticEmptyVArray g) = Some kDefaultVanillaArrayExtra \<and>
            CreateDArray tagStaticArr g tag False = tagStaticArr (staticEmptyDArray g) tag \<and>
            extra_at mem (CreateDArray tagStaticArr g tag False) = Some tag \<and>
            CreateDArray tagStaticArr g tag False \<notin> set (static_pool g) \<and>
            CreateDArray tagStaticArr g tag False \<noteq> staticEmptyDArray g \<and>
            extra_at mem (staticEmptyDArray g) = Some kDefaultVanillaArrayExtra)"
proof -
  have branches:
    "CreateVArray tagStaticArr g tag legacy =
       (if EvalHackArrDVArrs g then CreateVec g legacy
        else if legacy then Addr s_theEmptyMarkedVArray
        else tagStaticArr (Addr s_theEmptyVArray) tag)"
    "CreateDArray tagStaticArr g tag legacy =
       (if EvalHackArrDVArrs g then CreateDict g legacy
        else if legacy then s_theEmptyMarkedDArrayPtr g
        else tagStaticArr (s_theEmptyDArrayPtr g) tag)"
    using assms
    by (simp_all add: CreateVArray_def CreateDArray_def staticEmptyMarkedVArray_def
        staticEmptyVArray_def staticEmptyMarkedDArray_def staticEmptyDArray_def)
  have tagged:
    "CreateVArray tagStaticArr g tag False = tagStaticArr (staticEmptyVArray g) tag \<and>
     extra_at mem (CreateVArray tagStaticArr g tag False) = Some tag \<and>
     CreateVArray tagStaticArr g tag False \<notin> set (static_pool g) \<and>
     CreateVArray tagStaticArr g tag False \<noteq> staticEmptyVArray g \<and>
     extra_at mem (staticEmptyVArray g) = Some kDefaultVanillaArrayExtra \<and>
     CreateDArray tagStaticArr g tag False = tagStaticArr (staticEmptyDArray g) tag \<and>
     extra_at mem (CreateDArray tagStaticArr g tag False) = Some tag \<and>
     CreateDArray tagStaticArr g tag False \<notin> set (static_pool g) \<and>
     CreateDArray tagStaticArr g tag False \<noteq> staticEmptyDArray g \<and>
     extra_at mem (staticEmptyDArray g) = Some kDefaultVanillaArrayExtra"
    if c: "tagStaticArr_contract g mem tagStaticArr" and off: "\<not> EvalHackArrDVArrs g"
  proof -
    have v: "staticEmptyVArray g \<in> set (static_pool g)"
      and d: "staticEmptyDArray g \<in> set (static_pool g)"
      using off by (simp_all add: staticEmptyVArray_def staticEmptyDArray_def static_pool_def)
    have rv: "CreateVArray tagStaticArr g tag False = tagStaticArr (staticEmptyVArray g) tag"
      and rd: "CreateDArray tagStaticArr g tag False = tagStaticArr (staticEmptyDArray g) tag"
      using assms off by (simp_all add: CreateVArray_def CreateDArray_def)
    have pv: "tagStaticArr (staticEmptyVArray g) tag \<notin> set (static_pool g)"
      and tv: "extra_at mem (tagStaticArr (staticEmptyVArray g) tag) = Some tag"
      and uv: "extra_at mem (staticEmptyVArray g) = Some kDefaultVanillaArrayExtra"
      using c v unfolding tagStaticArr_contract_def by blast+
    have pd: "tagStaticArr (staticEmptyDArray g) tag \<notin> set (static_pool g)"
      and td: "extra_at mem (tagStaticArr (staticEmptyDArray g) tag) = Some tag"
      and ud: "extra_at mem (staticEmptyDArray g) = Some kDefaultVanillaArrayExtra"
      using c d unfolding tagStaticArr_contract_def by blast+
    have nv: "tagStaticArr (staticEmptyVArray g) tag \<noteq> staticEmptyVArray g"
      using pv v by auto
    have nd: "tagStaticArr (staticEmptyDArray g) tag \<noteq> staticEmptyDArray g"
      using pd d by auto
    show ?thesis
      unfolding rv rd using pv tv uv pd td ud nv nd by simp
  qed
  show ?thesis
    using branches tagged by blast
qed

theorem CreateDVArray_provenance_witness:
  "EvalArrayProvenance
     \<lparr>EvalHackArrDVArrs = False, EvalArrayProvenance = True,
      s_theEmptyDictArrayPtr = Addr (HeapObject 1000),
      s_theEmptyDArrayPtr = Addr (HeapObject 1001),
      s_theEmptyMarkedDArrayPtr = Addr (HeapObject 1002),
      s_theEmptyMarkedDictArrayPtr = Addr (HeapObject 1003)\<rparr> \<and>
   \<not> EvalHackArrDVArrs
     \<lparr>EvalHackArrDVArrs = False, EvalArrayProvenance = True,
      s_theEmptyDictArrayPtr = Addr (HeapObject 1000),
      s_theEmptyDArrayPtr = Addr (HeapObject 1001),
      s_theEmptyMarkedDArrayPtr = Addr (HeapObject 1002),
      s_theEmptyMarkedDictArrayPtr = Addr (HeapObject 1003)\<rparr> \<and>
   pool_untagged
     \<lparr>EvalHackArrDVArrs = False, EvalArrayProvenance = True,
      s_theEmptyDictArrayPtr = Addr (HeapObject 1000),
      s_theEmptyDArrayPtr = Addr (HeapObject 1001),
      s_theEmptyMarkedDArrayPtr = Addr (HeapObject 1002),
      s_theEmptyMarkedDictArrayPtr = Addr (HeapObject 1003)\<rparr>
     (static_storage
        (HeapObject 1000 := Some (static_header kDictKind False),
         HeapObject 1001 := Some (static_header kMixedKind False),
         HeapObject 1002 := Some (static_header kMixedKind True),
         HeapObject 1003 := Some (static_header kDictKind True))) \<and>
   tagStaticArr_contract
     \<lparr>EvalHackArrDVArrs = False, EvalArrayProvenance = True,
      s_theEmptyDictArrayPtr = Addr (HeapObject 1000),
      s_theEmptyDArrayPtr = Addr (HeapObject 1001),
      s_theEmptyMarkedDArrayPtr = Addr (HeapObject 1002),
      s_theEmptyMarkedDictArrayPtr = Addr (HeapObject 1003)\<rparr>
     (tracked_storage
       (static_storage
        (HeapObject 1000 := Some (static_header kDictKind False),
         HeapObject 1001 := Some (static_header kMixedKind False),
         HeapObject 1002 := Some (static_header kMixedKind True),
         HeapObject 1003 := Some (static_header kDictKind True))))
     tagStaticArr_clone \<and>
   CreateVArray tagStaticArr_clone
     \<lparr>EvalHackArrDVArrs = False, EvalArrayProvenance = True,
      s_theEmptyDictArrayPtr = Addr (HeapObject 1000),
      s_theEmptyDArrayPtr = Addr (HeapObject 1001),
      s_theEmptyMarkedDArrayPtr = Addr (HeapObject 1002),
      s_theEmptyMarkedDictArrayPtr = Addr (HeapObject 1003)\<rparr> 7 False =
     Addr (TrackedInstance s_theEmptyVArray 7) \<and>
   extra_at
     (tracked_storage
       (static_storage
        (HeapObject 1000 := Some (static_header kDictKind False),
         HeapObject 1001 := Some (static_header kMixedKind False),
         HeapObject 1002 := Some (static_header kMixedKind True),
         HeapObject 1003 := Some (static_header kDictKind True))))
     (CreateVArray tagStaticArr_clone
       \<lparr>EvalHackArrDVArrs = False, EvalArrayProvenance = True,
      s_theEmptyDictArrayPtr = Addr (HeapObject 1000),
      s_theEmptyDArrayPtr = Addr (HeapObject 1001),
      s_theEmptyMarkedDArrayPtr = Addr (HeapObject 1002),
      s_theEmptyMarkedDictArrayPtr = Addr (HeapObject 1003)\<rparr> 7 False) = Some 7 \<and>
   CreateDArray tagStaticArr_clone
     \<lparr>EvalHackArrDVArrs = False, EvalArrayProvenance = True,
      s_theEmptyDictArrayPtr = Addr (HeapObject 1000),
      s_theEmptyDArrayPtr = Addr (HeapObject 1001),
      s_theEmptyMarkedDArrayPtr = Addr (HeapObject 1002),
      s_theEmptyMarkedDictArrayPtr = Addr (HeapObject 1003)\<rparr> 7 False =
     Addr (TrackedInstance (HeapObject 1001) 7) \<and>
   extra_at
     (tracked_storage
       (static_storage
        (HeapObject 1000 := Some (static_header kDictKind False),
         HeapObject 1001 := Some (static_header kMixedKind False),
         HeapObject 1002 := Some (static_header kMixedKind True),
         HeapObject 1003 := Some (static_header kDictKind True))))
     (CreateDArray tagStaticArr_clone
       \<lparr>EvalHackArrDVArrs = False, EvalArrayProvenance = True,
      s_theEmptyDictArrayPtr = Addr (HeapObject 1000),
      s_theEmptyDArrayPtr = Addr (HeapObject 1001),
      s_theEmptyMarkedDArrayPtr = Addr (HeapObject 1002),
      s_theEmptyMarkedDictArrayPtr = Addr (HeapObject 1003)\<rparr> 7 False) = Some 7"
proof -
  let ?g = "\<lparr>EvalHackArrDVArrs = False, EvalArrayProvenance = True,
      s_theEmptyDictArrayPtr = Addr (HeapObject 1000),
      s_theEmptyDArrayPtr = Addr (HeapObject 1001),
      s_theEmptyMarkedDArrayPtr = Addr (HeapObject 1002),
      s_theEmptyMarkedDictArrayPtr = Addr (HeapObject 1003)\<rparr>"
  let ?mem = "(static_storage
        (HeapObject 1000 := Some (static_header kDictKind False),
         HeapObject 1001 := Some (static_header kMixedKind False),
         HeapObject 1002 := Some (static_header kMixedKind True),
         HeapObject 1003 := Some (static_header kDictKind True)))"
  have p: "EvalArrayProvenance ?g" and off: "\<not> EvalHackArrDVArrs ?g"
    by simp_all
  have pool: "pool_untagged ?g ?mem"
    by (simp add: pool_untagged_def static_pool_def static_header_def)
  have c: "tagStaticArr_contract ?g (tracked_storage ?mem) tagStaticArr_clone"
    using pool by (rule tagStaticArr_clone_contract)
  have "extra_at (tracked_storage ?mem) (CreateVArray tagStaticArr_clone ?g 7 False) = Some 7 \<and>
        extra_at (tracked_storage ?mem) (CreateDArray tagStaticArr_clone ?g 7 False) = Some 7"
    using CreateDVArray_provenance
      [OF p, where tagStaticArr = tagStaticArr_clone and mem = "tracked_storage ?mem"
        and tag = 7] c off
    by blast
  moreover have "CreateVArray tagStaticArr_clone ?g 7 False =
                   Addr (TrackedInstance s_theEmptyVArray 7)"
    and "CreateDArray tagStaticArr_clone ?g 7 False =
           Addr (TrackedInstance (HeapObject 1001) 7)"
    by (simp_all add: CreateVArray_def CreateDArray_def staticEmptyVArray_def
        staticEmptyDArray_def)
  ultimately show ?thesis
    using p off pool c by blast
qed

section \<open>Properties of release\<close>

text \<open>
  C7. \<open>decRefAndRelease\<close> reaches \<open>release\<close> only when \<open>decReleaseCheck\<close> returned
  true: a run that ends with a release call had the check return true, and when the check
  returns false the run ends with no call and no failed assertion. \<open>release\<close> fails
  exactly when the handle has multiple references or an invalid kind; without multiple
  references, and with a valid kind, it calls the release entry of the handle's kind.
\<close>

theorem decRefAndRelease_release:
  "(decRefAndRelease dc hm ad = Some (ad', evs) \<and> evs \<noteq> [] \<longrightarrow> fst (dc ad)) \<and>
   (kindIsValid ad \<and> \<not> fst (dc ad) \<longrightarrow> decRefAndRelease dc hm ad = Some (snd (dc ad), [])) \<and>
   (kindIsValid ad \<and> fst (dc ad) \<longrightarrow>
      decRefAndRelease dc hm ad = map_option (Pair (snd (dc ad))) (release hm (snd (dc ad)))) \<and>
   (release hm ad = None \<longleftrightarrow> hm ad \<or> \<not> kindIsValid ad) \<and>
   (\<not> hm ad \<and> kindIsValid ad \<longrightarrow> release hm ad = Some [ArrayFuncsRelease (m_kind ad)])"
  by (cases "dc ad")
    (auto simp: decRefAndRelease_def release_def kind_def split: if_splits bool.splits)

theorem decRefAndRelease_release_witness:
  "kindIsValid \<lparr>m_count = 1, m_kind = kVecKind, m_aux16 = 0, m_size = 2, m_extra = 0\<rparr> \<and>
   fst ((\<lambda>a. (m_count a = 1, a\<lparr>m_count := m_count a - 1\<rparr>))
     \<lparr>m_count = 1, m_kind = kVecKind, m_aux16 = 0, m_size = 2, m_extra = 0\<rparr>) \<and>
   decRefAndRelease (\<lambda>a. (m_count a = 1, a\<lparr>m_count := m_count a - 1\<rparr>)) (\<lambda>a. 1 < m_count a)
     \<lparr>m_count = 1, m_kind = kVecKind, m_aux16 = 0, m_size = 2, m_extra = 0\<rparr> =
     Some (\<lparr>m_count = 0, m_kind = kVecKind, m_aux16 = 0, m_size = 2, m_extra = 0\<rparr>,
           [ArrayFuncsRelease kVecKind])"
proof -
  let ?dc = "\<lambda>a::ArrayData. (m_count a = 1, a\<lparr>m_count := m_count a - 1\<rparr>)"
  let ?hm = "\<lambda>a::ArrayData. 1 < m_count a"
  let ?a = "\<lparr>m_count = 1, m_kind = kVecKind, m_aux16 = 0, m_size = 2, m_extra = 0\<rparr>"
  let ?b = "\<lparr>m_count = 0, m_kind = kVecKind, m_aux16 = 0, m_size = 2, m_extra = 0\<rparr>"
  have va: "kindIsValid ?a" and vb: "kindIsValid ?b"
    by (simp_all add: kindIsValid_def isArrayKind_def ArrayKind_defs)
  have last: "fst (?dc ?a)" and after: "snd (?dc ?a) = ?b"
    by simp_all
  have single: "\<not> ?hm ?b"
    by simp
  from decRefAndRelease_release [where hm = ?hm and ad = ?b] single vb
  have r: "release ?hm ?b = Some [ArrayFuncsRelease kVecKind]"
    by simp
  from decRefAndRelease_release [where dc = ?dc and hm = ?hm and ad = ?a] va last
  have "decRefAndRelease ?dc ?hm ?a = map_option (Pair (snd (?dc ?a))) (release ?hm (snd (?dc ?a)))"
    by blast
  then show ?thesis
    using va last after r by simp
qed

section \<open>Properties of the layout indices\<close>


lemmas layout_byte_defs =
  kMaxLayoutByte_def kStructLayoutByte_def kLoggingLayoutByte_def kMonotypeVecLayoutByte_def
  kEmptyMonotypeVecLayoutByte_def kIntMonotypeDictLayoutByte_def
  kStrMonotypeDictLayoutByte_def kStaticStrMonotypeDictLayoutByte_def
  kEmptyMonotypeDictLayoutByte_def







section \<open>Properties of the layout hierarchy\<close>

lemma phase_inv_init: "phase_inv t (InitializeLayouts t)"
  by (simp add: phase_inv_def InitializeLayouts_def)

lemma phase_inv_Register:
  assumes "Register h i d ps v c = Inr h'" and "phase_inv t h"
  shows "phase_inv t h'"
  using assms
  by (auto simp: Register_def phase_inv_def indices_def split: if_splits)

lemma phase_inv_register_all:
  "register_all h rs = Inr h' \<Longrightarrow> phase_inv t h \<Longrightarrow> phase_inv t h'"
proof (induction rs arbitrary: h)
  case Nil
  then show ?case by simp
next
  case (Cons r rs)
  obtain i d ps v c where r: "r = (i, d, ps, v, c)" by (cases r)
  from Cons.prems(1) obtain h1 where h1: "Register h i d ps v c = Inr h1"
    and rest: "register_all h1 rs = Inr h'"
    by (auto simp: r split: sum.splits)
  from h1 Cons.prems(2) have "phase_inv t h1" by (rule phase_inv_Register)
  with rest show ?case by (rule Cons.IH)
qed

lemma ancestors_registered_mem:
  "x \<in> set (computeAncestors ls i) \<Longrightarrow> x \<in> set (map m_index ls)"
proof (induction ls arbitrary: i)
  case Nil
  then show ?case by simp
next
  case (Cons l ls)
  show ?case
  proof (cases "m_index l = i")
    case True
    with Cons.prems have "x = i \<or> (\<exists>p. x \<in> set (computeAncestors ls p))"
      by auto
    then show ?thesis
      using True Cons.IH by auto
  next
    case False
    with Cons.prems have "x \<in> set (computeAncestors ls i)" by simp
    then show ?thesis using Cons.IH by simp
  qed
qed

lemma ancestors_registered:
  "set (computeAncestors ls i) \<subseteq> set (map m_index ls)"
  using ancestors_registered_mem by blast

lemma ancestors_refl:
  "i \<in> set (map m_index ls) \<Longrightarrow> i \<in> set (computeAncestors ls i)"
  by (induction ls) auto

lemma ancestors_antisym:
  assumes "topo_sorted ls"
    and "b \<in> set (computeAncestors ls a)" and "a \<in> set (computeAncestors ls b)"
  shows "a = b"
  using assms
proof (induction ls)
  case Nil
  then show ?case by simp
next
  case (Cons l ls)
  have fresh: "m_index l \<notin> set (map m_index ls)" using Cons.prems(1) by simp
  show ?case
  proof (cases "m_index l = a")
    case a: True
    show ?thesis
    proof (cases "m_index l = b")
      case True
      with a show ?thesis by simp
    next
      case False
      with Cons.prems(3) have "a \<in> set (computeAncestors ls b)" by simp
      then have "a \<in> set (map m_index ls)" using ancestors_registered by blast
      with fresh a show ?thesis by simp
    qed
  next
    case na: False
    show ?thesis
    proof (cases "m_index l = b")
      case True
      with na Cons.prems(2) have "b \<in> set (computeAncestors ls a)" by simp
      then have "b \<in> set (map m_index ls)" using ancestors_registered by blast
      with fresh True show ?thesis by simp
    next
      case False
      with na Cons.prems show ?thesis by (intro Cons.IH) simp_all
    qed
  qed
qed

lemma ancestors_top:
  assumes "topo_sorted ls" and "ls \<noteq> []" and "m_index (last ls) = t" and "m_parents (last ls) = []"
  shows "computeAncestors ls t = [t]"
  using assms
proof (induction ls)
  case Nil
  then show ?case by simp
next
  case (Cons l ls)
  show ?case
  proof (cases "ls = []")
    case True
    with Cons.prems show ?thesis by simp
  next
    case False
    with Cons.prems(3) have "t \<in> set (map m_index ls)" by auto
    with Cons.prems(1) have "m_index l \<noteq> t" by auto
    moreover have "computeAncestors ls t = [t]"
      using Cons.prems False by (intro Cons.IH) simp_all
    ultimately show ?thesis by simp
  qed
qed


lemma find_map_list:
  "find P (map f xs) = map_option f (find (\<lambda>x. P (f x)) xs)"
  by (induction xs) simp_all

lemma indices_Finalize: "indices (FinalizeHierarchy h) = indices h"
  by (simp add: FinalizeHierarchy_def indices_def comp_def)

lemma FromIndex_Finalize:
  "FromIndex (FinalizeHierarchy h) a =
     map_option (\<lambda>l. l\<lparr>m_ancestors := computeAncestors (layouts h) (m_index l),
                       m_descendants :=
                         computeDescendants (bespokeTop h) (layouts h) (m_index l)\<rparr>)
       (FromIndex h a)"
  by (simp add: FromIndex_def FinalizeHierarchy_def find_map_list)

lemma FromIndex_index: "FromIndex h a = Some l \<Longrightarrow> m_index l = a"
  by (auto simp: FromIndex_def find_Some_iff)

lemma FromIndex_registered: "a \<in> set (indices h) \<Longrightarrow> \<exists>l. FromIndex h a = Some l"
  by (cases "FromIndex h a") (auto simp: FromIndex_def indices_def find_None_iff)

lemma isDescendantOf_Finalize:
  assumes "a \<in> set (indices h0)"
  shows "isDescendantOf (FinalizeHierarchy h0) a b \<longleftrightarrow>
           b = bespokeTop h0 \<or> b \<in> set (computeAncestors (layouts h0) a)"
proof -
  from assms obtain l where l: "FromIndex h0 a = Some l"
    using FromIndex_registered by blast
  then have "m_index l = a" by (rule FromIndex_index)
  with l show ?thesis
    by (simp add: isDescendantOf_def FromIndex_Finalize) (simp add: FinalizeHierarchy_def)
qed

text \<open>The order on a sealed hierarchy.\<close>

lemma sealed_refl:
  assumes "a \<in> set (indices h0)"
  shows "isDescendantOf (FinalizeHierarchy h0) a a"
  using assms by (simp add: isDescendantOf_Finalize ancestors_refl indices_def)

lemma sealed_top:
  assumes "a \<in> set (indices h0)"
  shows "isDescendantOf (FinalizeHierarchy h0) a (bespokeTop h0)"
  using assms by (simp add: isDescendantOf_Finalize)

lemma sealed_antisym:
  assumes inv: "phase_inv t h0"
    and a: "a \<in> set (indices h0)" and b: "b \<in> set (indices h0)"
    and ab: "isDescendantOf (FinalizeHierarchy h0) a b"
    and ba: "isDescendantOf (FinalizeHierarchy h0) b a"
  shows "a = b"
proof -
  have top: "computeAncestors (layouts h0) t = [t]" and t: "bespokeTop h0 = t"
    and sorted: "topo_sorted (layouts h0)"
    using inv by (simp_all add: phase_inv_def ancestors_top)
  from ab a have ab': "b = t \<or> b \<in> set (computeAncestors (layouts h0) a)"
    by (simp add: isDescendantOf_Finalize t)
  from ba b have ba': "a = t \<or> a \<in> set (computeAncestors (layouts h0) b)"
    by (simp add: isDescendantOf_Finalize t)
  show ?thesis
  proof (cases "a = t \<or> b = t")
    case True
    then show ?thesis using ab' ba' top by auto
  next
    case False
    with ab' ba' sorted show ?thesis by (auto intro: ancestors_antisym)
  qed
qed

lemma top_registered:
  assumes "phase_inv t h0"
  shows "t \<in> set (indices h0)"
proof -
  from assms have "layouts h0 \<noteq> []" and "m_index (last (layouts h0)) = t"
    by (simp_all add: phase_inv_def)
  then show ?thesis
    unfolding indices_def using last_in_set by fastforce
qed

lemma Layout_le_sealed:
  assumes "a \<in> set (indices h0)" and "b \<in> set (indices h0)"
  shows "Layout_le (FinalizeHierarchy h0) a b = Inr (isDescendantOf (FinalizeHierarchy h0) a b)"
  using assms by (simp add: Layout_le_def indices_Finalize) (simp add: FinalizeHierarchy_def)

lemma filter_hd_mem: "filter P xs = y # ys \<Longrightarrow> y \<in> set xs \<and> P y"
proof -
  assume "filter P xs = y # ys"
  then have "y \<in> set (filter P xs)"
    by simp
  then show ?thesis
    by simp
qed

lemma Layout_join_sealed:
  assumes inv: "phase_inv t h0" and a: "a \<in> set (indices h0)" and b: "b \<in> set (indices h0)"
  shows "\<exists>j. Layout_join (FinalizeHierarchy h0) a b = Inr j \<and> j \<in> set (indices h0) \<and>
             isDescendantOf (FinalizeHierarchy h0) a j \<and> isDescendantOf (FinalizeHierarchy h0) b j"
proof -
  let ?h = "FinalizeHierarchy h0"
  let ?common = "filter (\<lambda>c. isDescendantOf ?h a c \<and> isDescendantOf ?h b c) (indices ?h)"
  let ?least = "filter (\<lambda>c. list_all (\<lambda>d. isDescendantOf ?h c d) ?common) ?common"
  have final: "hierarchyFinal ?h" and top: "bespokeTop ?h = bespokeTop h0"
    by (simp_all add: FinalizeHierarchy_def)
  have t: "bespokeTop h0 = t" using inv by (simp add: phase_inv_def)
  have j: "Layout_join ?h a b = (case ?least of [] \<Rightarrow> Inr (bespokeTop ?h) | c # _ \<Rightarrow> Inr c)"
    using a b final by (simp add: Layout_join_def indices_Finalize Let_def)
  show ?thesis
  proof (cases ?least)
    case Nil
    then have "Layout_join ?h a b = Inr t" using j top t by simp
    then show ?thesis
      using a b sealed_top [of a h0] sealed_top [of b h0] top_registered [OF inv] t by simp
  next
    case (Cons c cs)
    then have "c \<in> set ?common" by (rule filter_hd_mem [THEN conjunct1])
    then have "c \<in> set (indices h0) \<and> isDescendantOf ?h a c \<and> isDescendantOf ?h b c"
      by (simp add: indices_Finalize)
    moreover have "Layout_join ?h a b = Inr c" using j Cons by simp
    ultimately show ?thesis by simp
  qed
qed

lemma Layout_meet_sealed:
  assumes a: "a \<in> set (indices h0)" and b: "b \<in> set (indices h0)"
  shows "Layout_meet (FinalizeHierarchy h0) a b = Inr None \<or>
         (\<exists>m. Layout_meet (FinalizeHierarchy h0) a b = Inr (Some m) \<and> m \<in> set (indices h0) \<and>
             isDescendantOf (FinalizeHierarchy h0) m a \<and> isDescendantOf (FinalizeHierarchy h0) m b)"
proof -
  let ?h = "FinalizeHierarchy h0"
  let ?common = "filter (\<lambda>d. isDescendantOf ?h d a \<and> isDescendantOf ?h d b) (indices ?h)"
  let ?greatest = "filter (\<lambda>g. list_all (\<lambda>d. isDescendantOf ?h d g) ?common) ?common"
  have final: "hierarchyFinal ?h"
    by (simp add: FinalizeHierarchy_def)
  have m: "Layout_meet ?h a b = (case ?greatest of [] \<Rightarrow> Inr None | g # _ \<Rightarrow> Inr (Some g))"
    using a b final by (simp add: Layout_meet_def indices_Finalize Let_def)
  show ?thesis
  proof (cases ?greatest)
    case Nil
    then show ?thesis using m by simp
  next
    case (Cons g gs)
    then have "g \<in> set ?common" by (rule filter_hd_mem [THEN conjunct1])
    then have "g \<in> set (indices h0) \<and> isDescendantOf ?h g a \<and> isDescendantOf ?h g b"
      by (simp add: indices_Finalize)
    moreover have "Layout_meet ?h a b = Inr (Some g)" using m Cons by simp
    ultimately show ?thesis by simp
  qed
qed

lemma Layout_join_commute: "Layout_join h a b = Layout_join h b a"
proof -
  have "(\<lambda>c. isDescendantOf h a c \<and> isDescendantOf h b c) =
        (\<lambda>c. isDescendantOf h b c \<and> isDescendantOf h a c)"
    by auto
  then show ?thesis
    unfolding Layout_join_def by (auto simp: Let_def)
qed

lemma Layout_meet_commute: "Layout_meet h a b = Layout_meet h b a"
proof -
  have "(\<lambda>d. isDescendantOf h d a \<and> isDescendantOf h d b) =
        (\<lambda>d. isDescendantOf h d b \<and> isDescendantOf h d a)"
    by auto
  then show ?thesis
    unfolding Layout_meet_def by (auto simp: Let_def)
qed

text \<open>
  C3. On a hierarchy sealed by \<open>FinalizeHierarchy\<close> after any successful registration
  phase, for registered layouts \<open>a\<close> and \<open>b\<close>: \<open>a <= a\<close>; \<open>a <= b\<close> and \<open>b <= a\<close>
  hold together exactly when \<open>a = b\<close>; the join is returned and is above both; the
  meet is returned and is the bottom layout or below both; join and meet are
  commutative.
\<close>

theorem lattice_laws:
  assumes "register_all (InitializeLayouts t) regs = Inr h0"
    and "h = FinalizeHierarchy h0"
    and "a \<in> set (indices h)" and "b \<in> set (indices h)"
  shows "Layout_le h a a = Inr True \<and>
         ((Layout_le h a b = Inr True \<and> Layout_le h b a = Inr True) \<longleftrightarrow> a = b) \<and>
         (case Layout_join h a b of Inl e \<Rightarrow> False
          | Inr j \<Rightarrow> Layout_le h a j = Inr True \<and> Layout_le h b j = Inr True) \<and>
         (case Layout_meet h a b of Inl e \<Rightarrow> False
          | Inr None \<Rightarrow> True
          | Inr (Some m) \<Rightarrow> Layout_le h m a = Inr True \<and> Layout_le h m b = Inr True) \<and>
         Layout_join h a b = Layout_join h b a \<and> Layout_meet h a b = Layout_meet h b a"
proof -
  have inv: "phase_inv t h0"
    using assms(1) phase_inv_init by (rule phase_inv_register_all)
  have a: "a \<in> set (indices h0)" and b: "b \<in> set (indices h0)"
    using assms(2-4) by (simp_all add: indices_Finalize)
  have refl: "Layout_le h a a = Inr True"
    using a by (simp add: assms(2) Layout_le_sealed sealed_refl)
  have antisym: "(Layout_le h a b = Inr True \<and> Layout_le h b a = Inr True) \<longleftrightarrow> a = b"
    using a b sealed_antisym [OF inv a b] sealed_refl [OF a]
    by (auto simp: assms(2) Layout_le_sealed)
  from Layout_join_sealed [OF inv a b] obtain j where
    j: "Layout_join h a b = Inr j" "j \<in> set (indices h0)"
       "isDescendantOf h a j" "isDescendantOf h b j"
    unfolding assms(2) by blast
  have join: "case Layout_join h a b of Inl e \<Rightarrow> False
              | Inr j \<Rightarrow> Layout_le h a j = Inr True \<and> Layout_le h b j = Inr True"
    using j a b by (simp add: assms(2) Layout_le_sealed)
  have meet: "case Layout_meet h a b of Inl e \<Rightarrow> False
              | Inr None \<Rightarrow> True
              | Inr (Some m) \<Rightarrow> Layout_le h m a = Inr True \<and> Layout_le h m b = Inr True"
    using Layout_meet_sealed [OF a b] a b
    by (auto simp: assms(2) Layout_le_sealed)
  show ?thesis
    using refl antisym join meet Layout_join_commute [of h a b] Layout_meet_commute [of h a b]
    by blast
qed


lemma family_0D00: "index_in_family (LayoutIndex 0x0D00)"
  by (simp add: index_in_family_def layoutByte_def layout_bytes_def layout_byte_defs drop_bit_eq_div)

lemma family_0D01: "index_in_family (LayoutIndex 0x0D01)"
  by (simp add: index_in_family_def layoutByte_def layout_bytes_def layout_byte_defs drop_bit_eq_div)

lemma family_0C00: "index_in_family (LayoutIndex 0x0C00)"
  by (simp add: index_in_family_def layoutByte_def layout_bytes_def layout_byte_defs drop_bit_eq_div)

theorem lattice_laws_witness:
  "case register_all (InitializeLayouts (LayoutIndex 0))
       [(LayoutIndex 0x0D00, ''MonotypeVec<Top>'', [LayoutIndex 0], nullptr, False),
        (LayoutIndex 0x0D01, ''MonotypeVec<Int>'', [LayoutIndex 0x0D00], Addr 1, True),
        (LayoutIndex 0x0C00, ''MonotypeVec<Empty>'', [LayoutIndex 0x0D00], Addr 2, True)] of
     Inl e \<Rightarrow> False
   | Inr h0 \<Rightarrow>
       LayoutIndex 0x0D01 \<in> set (indices (FinalizeHierarchy h0)) \<and>
       LayoutIndex 0x0C00 \<in> set (indices (FinalizeHierarchy h0)) \<and>
       Layout_join (FinalizeHierarchy h0) (LayoutIndex 0x0D01) (LayoutIndex 0x0C00) =
         Inr (LayoutIndex 0x0D00) \<and>
       Layout_meet (FinalizeHierarchy h0) (LayoutIndex 0x0D01) (LayoutIndex 0x0C00) = Inr None \<and>
       Layout_le (FinalizeHierarchy h0) (LayoutIndex 0x0D01) (LayoutIndex 0x0D00) = Inr True \<and>
       Layout_le (FinalizeHierarchy h0) (LayoutIndex 0x0C00) (LayoutIndex 0x0D00) = Inr True \<and>
       Layout_le (FinalizeHierarchy h0) (LayoutIndex 0x0D01) (LayoutIndex 0x0C00) = Inr False"
proof -
  let ?regs = "[(LayoutIndex 0x0D00, ''MonotypeVec<Top>'', [LayoutIndex 0], nullptr, False),
        (LayoutIndex 0x0D01, ''MonotypeVec<Int>'', [LayoutIndex 0x0D00], Addr 1, True),
        (LayoutIndex 0x0C00, ''MonotypeVec<Empty>'', [LayoutIndex 0x0D00], Addr 2, True)]"
  let ?pre = "\<lparr>layouts =
         [\<lparr>m_index = LayoutIndex 0x0C00, m_description = ''MonotypeVec<Empty>'',
           m_parents = [LayoutIndex 0x0D00], m_vtable = Addr 2, isConcrete = True,
           m_ancestors = [], m_descendants = []\<rparr>,
          \<lparr>m_index = LayoutIndex 0x0D01, m_description = ''MonotypeVec<Int>'',
           m_parents = [LayoutIndex 0x0D00], m_vtable = Addr 1, isConcrete = True,
           m_ancestors = [], m_descendants = []\<rparr>,
          \<lparr>m_index = LayoutIndex 0x0D00, m_description = ''MonotypeVec<Top>'',
           m_parents = [LayoutIndex 0], m_vtable = nullptr, isConcrete = False,
           m_ancestors = [], m_descendants = []\<rparr>,
          \<lparr>m_index = LayoutIndex 0, m_description = ''BespokeTop'', m_parents = [],
           m_vtable = nullptr, isConcrete = False, m_ancestors = [], m_descendants = []\<rparr>],
       hierarchyFinal = False, bespokeTop = LayoutIndex 0\<rparr>"
  let ?sealed = "FinalizeHierarchy ?pre"
  let ?a = "LayoutIndex 0x0D01"
  let ?b = "LayoutIndex 0x0C00"
  have r: "register_all (InitializeLayouts (LayoutIndex 0)) ?regs = Inr ?pre"
    by (simp add: InitializeLayouts_def Register_def indices_def family_0D00 family_0D01
        family_0C00)
  have a: "?a \<in> set (indices ?sealed)" and b: "?b \<in> set (indices ?sealed)"
    unfolding indices_Finalize by (simp_all add: indices_def)
  have j: "Layout_join ?sealed ?a ?b = Inr (LayoutIndex 0x0D00)"
    by (simp add: Layout_join_def isDescendantOf_def FromIndex_def indices_def
        FinalizeHierarchy_def computeDescendants_def)
  have m: "Layout_meet ?sealed ?a ?b = Inr None"
    by (simp add: Layout_meet_def isDescendantOf_def FromIndex_def indices_def
        FinalizeHierarchy_def computeDescendants_def)
  have n: "Layout_le ?sealed ?a ?b = Inr False"
    by (simp add: Layout_le_def isDescendantOf_def FromIndex_def indices_def
        FinalizeHierarchy_def computeDescendants_def)
  have "case Layout_join ?sealed ?a ?b of Inl e \<Rightarrow> False
        | Inr j \<Rightarrow> Layout_le ?sealed ?a j = Inr True \<and> Layout_le ?sealed ?b j = Inr True"
    using lattice_laws [OF r, where h = ?sealed and a = ?a and b = ?b] a b by blast
  then have u: "Layout_le ?sealed ?a (LayoutIndex 0x0D00) = Inr True \<and>
        Layout_le ?sealed ?b (LayoutIndex 0x0D00) = Inr True"
    unfolding j by simp
  show ?thesis
    unfolding r using a b j m n u by simp
qed

section \<open>Bounds on the indices of registered layouts\<close>








end
